theory Spec2Isabelle
  imports Complex_Main
begin

section \<open>Python strings\<close>

text \<open>
  Python text is modelled as \<^typ>\<open>string\<close>, a list of 8-bit characters. The model is
  exact for ASCII text. A character outside ASCII is a run of UTF-8 bytes that \<open>lower\<close>
  leaves unchanged and that is never white space, while Python strips the white space
  outside ASCII too (U+00A0, for one) and lowers the letters outside ASCII (U+212A to
  \<open>k\<close>, for one): on such text the functions of this section may differ from the
  source. Every concrete query and script below is ASCII.
\<close>

definition ascii_uppercase :: string where
  "ascii_uppercase = ''ABCDEFGHIJKLMNOPQRSTUVWXYZ''"

definition ascii_lowercase :: string where
  "ascii_lowercase = ''abcdefghijklmnopqrstuvwxyz''"

definition lower_char :: "char \<Rightarrow> char" where
  "lower_char c = (case map_of (zip ascii_uppercase ascii_lowercase) c of
                     Some l \<Rightarrow> l | None \<Rightarrow> c)"

text \<open>\<open>str.lower()\<close>\<close>

definition lower :: "string \<Rightarrow> string" where
  "lower s = map lower_char s"

text \<open>The ASCII characters for which \<open>str.isspace()\<close> holds: tab, line feed, vertical
  tab, form feed, carriage return, the four separators 0x1C..0x1F and the space.\<close>

definition is_space :: "char \<Rightarrow> bool" where
  "is_space c = (c \<in> set [CHR 0x09, CHR 0x0A, CHR 0x0B, CHR 0x0C, CHR 0x0D,
                           CHR 0x1C, CHR 0x1D, CHR 0x1E, CHR 0x1F, CHR 0x20])"

text \<open>\<open>str.strip()\<close>\<close>

definition strip :: "string \<Rightarrow> string" where
  "strip s = rev (dropWhile is_space (rev (dropWhile is_space s)))"

text \<open>\<open>s.startswith(p)\<close>\<close>

fun startswith :: "string \<Rightarrow> string \<Rightarrow> bool" where
  "startswith s [] = True"
| "startswith [] (p # ps) = False"
| "startswith (c # cs) (p # ps) = (c = p \<and> startswith cs ps)"

text \<open>\<open>s.endswith(p)\<close>\<close>

definition endswith :: "string \<Rightarrow> string \<Rightarrow> bool" where
  "endswith s p = startswith (rev s) (rev p)"

text \<open>\<open>p in s\<close> for strings: \<open>p\<close> occurs in \<open>s\<close> as a contiguous substring.\<close>

fun contains :: "string \<Rightarrow> string \<Rightarrow> bool" where
  "contains [] p = (p = [])"
| "contains (c # cs) p = (startswith (c # cs) p \<or> contains cs p)"

section \<open>Validator: \<open>ChartUtils.validate_sql_query\<close> and \<open>ChartUtils.validate_plotly_code\<close>\<close>

definition dangerous_keywords :: "string list" where
  "dangerous_keywords =
     [''drop'', ''delete'', ''truncate'', ''alter'', ''create'', ''insert'',
      ''update'', ''grant'', ''revoke'', ''exec'', ''execute'']"

text \<open>The test of the loop body: \<open>f' {keyword} ' in f' {query_lower} '\<close>.\<close>

definition keyword_hit :: "string \<Rightarrow> string \<Rightarrow> bool" where
  "keyword_hit query_lower keyword =
     contains ('' '' @ query_lower @ '' '') ('' '' @ keyword @ '' '')"

text \<open>The function returns the pair \<open>(is_valid, error_message)\<close>. The \<open>for\<close> loop
  returns at the first keyword that hits, which is what \<^const>\<open>find\<close> computes.\<close>

definition validate_sql_query :: "string \<Rightarrow> bool \<times> string" where
  "validate_sql_query query =
     (let query_lower = strip (lower query) in
      case find (keyword_hit query_lower) dangerous_keywords of
        Some keyword \<Rightarrow>
          (False, ''Query contains potentially dangerous keyword: '' @ keyword)
      | None \<Rightarrow>
          if \<not> startswith query_lower ''select''
          then (False, ''Query must start with SELECT'')
          else if count_list query (CHR ''('') \<noteq> count_list query (CHR '')'')
          then (False, ''Mismatched parentheses in query'')
          else (True, ''''))"

definition dangerous_patterns :: "string list" where
  "dangerous_patterns =
     [''import os'', ''import sys'', ''import subprocess'', ''exec('', ''eval('',
      ''open('', ''__import__'', ''globals()'', ''locals()'', ''file('', ''input('',
      ''raw_input('']"

definition plotly_markers :: "string list" where
  "plotly_markers = [''px.'', ''go.'', ''plotly'']"

definition validate_plotly_code :: "string \<Rightarrow> bool \<times> string" where
  "validate_plotly_code plotly_code =
     (let code_lower = lower plotly_code in
      case find (contains code_lower) dangerous_patterns of
        Some pattern \<Rightarrow>
          (False, ''Code contains potentially dangerous pattern: '' @ pattern)
      | None \<Rightarrow>
          if \<not> contains plotly_code ''fig''
          then (False, ''Code must create a variable named 'fig'' @ [CHR 0x27])
          else if \<not> list_ex (contains plotly_code) plotly_markers
          then (False, ''Code should use plotly (px. or go.)'')
          else (True, ''''))"

text \<open>The words of the specification: a token is a maximal run of characters that are
  not white space (what \<open>str.split()\<close> returns), and a keyword occurs as a standalone
  token when it is one of the tokens of the text.\<close>

fun tokens_from :: "string \<Rightarrow> string \<Rightarrow> string list" where
  "tokens_from cur [] = (if cur = [] then [] else [cur])"
| "tokens_from cur (c # cs) =
     (if is_space c
      then (if cur = [] then tokens_from [] cs else cur # tokens_from [] cs)
      else tokens_from (cur @ [c]) cs)"

definition standalone_token :: "string \<Rightarrow> string \<Rightarrow> bool" where
  "standalone_token keyword txt = (keyword \<in> set (tokens_from [] txt))"

section \<open>Repository: the output directory\<close>

text \<open>
  The output directory is the only state of \<open>list_recent_charts\<close> and
  \<open>cleanup_old_charts\<close>. For \<open>list_recent_charts\<close> a directory is the list of its
  entries in the order of \<open>os.listdir\<close>, or \<open>None\<close> when
  \<open>os.path.exists(self.output_dir)\<close> is false. An entry carries what the two functions
  read of it: its name, \<open>os.path.getmtime\<close>, \<open>os.path.getsize\<close>, and whether
  \<open>os.remove\<close> succeeds on it (the source catches the exception of a failed removal).
  A time stamp is the real number that the float denotes; \<open>list_recent_charts\<close> only
  compares time stamps. Where \<open>os.path.getmtime\<close> raises on a listed name,
  \<open>list_recent_charts\<close> raises and returns no list; its model covers the directories in
  which every listed entry has a modification time.
\<close>

record file_entry =
  fname :: string
  fmtime :: real
  fsize :: nat
  removable :: bool

text \<open>\<open>os.path.join(d, x)\<close> on a POSIX system.\<close>

definition path_join :: "string \<Rightarrow> string \<Rightarrow> string" where
  "path_join d x =
     (if startswith x ''/'' then x
      else if d = [] \<or> endswith d ''/'' then d @ x
      else d @ ''/'' @ x)"

text \<open>The slice \<open>xs[:n]\<close>: a negative \<open>n\<close> counts from the end of the list.\<close>

definition py_take :: "int \<Rightarrow> 'a list \<Rightarrow> 'a list" where
  "py_take n xs = (if 0 \<le> n then take (nat n) xs else take (length xs - nat (- n)) xs)"

text \<open>The slice \<open>xs[:-k]\<close> for a positive constant \<open>k\<close>.\<close>

definition py_drop_last :: "nat \<Rightarrow> 'a list \<Rightarrow> 'a list" where
  "py_drop_last k xs = take (length xs - k) xs"

text \<open>The dictionary \<open>chart_info\<close>; \<open>modified\<close> keeps the time stamp that the source
  wraps in \<open>datetime.fromtimestamp\<close>.\<close>

record chart_info =
  ci_name :: string
  html_path :: string
  json_path :: string
  png_path :: string
  modified :: real
  ci_size :: nat
  available_formats :: "string list"

text \<open>\<open>os.path.exists(os.path.join(self.output_dir, n))\<close> for a name \<open>n\<close> without a
  path separator: the directory has an entry of that name.\<close>

definition path_exists :: "file_entry list \<Rightarrow> string \<Rightarrow> bool" where
  "path_exists entries n = (n \<in> set (map fname entries))"

text \<open>The body of the \<open>for\<close> loop of \<open>list_recent_charts\<close>.\<close>

definition chart_info_of :: "string \<Rightarrow> file_entry list \<Rightarrow> file_entry \<Rightarrow> chart_info" where
  "chart_info_of output_dir entries f =
     (let filename = fname f;
          base_name = py_drop_last 5 filename
      in \<lparr>ci_name = base_name,
          html_path = path_join output_dir filename,
          json_path = path_join output_dir (base_name @ ''.json''),
          png_path = path_join output_dir (base_name @ ''.png''),
          modified = fmtime f,
          ci_size = fsize f,
          available_formats =
            [''html'']
            @ (if path_exists entries (base_name @ ''.json'') then [''json''] else [])
            @ (if path_exists entries (base_name @ ''.png'') then [''png''] else [])\<rparr>)"

text \<open>
  \<open>list_recent_charts\<close>. The source sorts the names by the time stamp that it looks up for
  each; the model sorts the entries themselves. \<open>list.sort(key=..., reverse=True)\<close> is
  stable, as \<^const>\<open>sort_key\<close> on the negated key is.
\<close>

definition list_recent_charts ::
  "string \<Rightarrow> file_entry list option \<Rightarrow> int \<Rightarrow> chart_info list" where
  "list_recent_charts output_dir dir limit =
     (case dir of
        None \<Rightarrow> []
      | Some entries \<Rightarrow>
          (let html_files = filter (\<lambda>f. endswith (fname f) ''.html'') entries;
               html_files = sort_key (\<lambda>f. - fmtime f) html_files
           in map (chart_info_of output_dir entries) (py_take limit html_files)))"

text \<open>Directories used as concrete inputs below.\<close>

definition gallery_dir :: "file_entry list" where
  "gallery_dir =
     [\<lparr>fname = ''sales_20240101_120000.html'', fmtime = 5, fsize = 10, removable = True\<rparr>,
      \<lparr>fname = ''costs_20240101_120000.html'', fmtime = 5, fsize = 20, removable = True\<rparr>,
      \<lparr>fname = ''costs_20240101_120000.json'', fmtime = 7, fsize = 20, removable = True\<rparr>]"

definition costs_record :: chart_info where
  "costs_record =
     \<lparr>ci_name = ''costs_20240101_120000'',
      html_path = ''output/charts/costs_20240101_120000.html'',
      json_path = ''output/charts/costs_20240101_120000.json'',
      png_path = ''output/charts/costs_20240101_120000.png'',
      modified = 5, ci_size = 20, available_formats = [''html'', ''json'']\<rparr>"

section \<open>Python values shared by the engine and the presenter\<close>

text \<open>
  A raised exception is a value. \<open>Exc m\<close> is an instance of \<open>Exception\<close> whose \<open>str\<close> is
  \<open>m\<close>. \<open>Unprintable e\<close> is an instance of \<open>Exception\<close> whose \<open>__str__\<close> raises \<open>e\<close>: a
  script can define such a class and raise it. \<open>BaseExc m\<close> is an instance of
  \<open>BaseException\<close> that is not an \<open>Exception\<close> (\<open>SystemExit\<close>, \<open>KeyboardInterrupt\<close>,
  \<open>GeneratorExit\<close>), which a handler \<open>except Exception\<close> does not catch.
\<close>

datatype exn = Exc string | Unprintable exn | BaseExc string

text \<open>\<open>isinstance(e, Exception)\<close>\<close>

definition is_exception :: "exn \<Rightarrow> bool" where
  "is_exception e = (case e of BaseExc m \<Rightarrow> False | _ \<Rightarrow> True)"

text \<open>\<open>str(e)\<close>, which is also what the f-string \<open>f"{e}"\<close> calls: the text, or the
  exception that \<open>__str__\<close> raises.\<close>

definition str_exn :: "exn \<Rightarrow> exn + string" where
  "str_exn e = (case e of Exc m \<Rightarrow> Inr m | Unprintable e' \<Rightarrow> Inl e' | BaseExc m \<Rightarrow> Inr m)"

text \<open>
  A handler \<open>except Exception as e\<close> whose body formats \<open>e\<close> and goes on with \<open>k\<close>: an
  exception that is no \<open>Exception\<close> passes, and an exception that \<open>str(e)\<close> raises
  leaves the handler in place of \<open>e\<close>.
\<close>

datatype 'a outcome = Returns 'a | Propagates exn | NeverReturns

definition except_Exception :: "exn \<Rightarrow> (string \<Rightarrow> 'a outcome) \<Rightarrow> 'a outcome" where
  "except_Exception e k =
     (if is_exception e
      then (case str_exn e of Inr m \<Rightarrow> k m | Inl e' \<Rightarrow> Propagates e')
      else Propagates e)"



















section \<open>Repository: \<open>VisualizationEngine.cleanup_old_charts\<close>\<close>

text \<open>
  For \<open>cleanup_old_charts\<close> the output directory is missing, or \<open>os.listdir\<close> raises on
  it, or it is listed. A listed name is an entry with its modification time, or a name
  on which \<open>os.path.getmtime\<close> raises the \<open>OSError\<close> of the given text: a dangling link,
  or a file that vanished after the listing.
\<close>

datatype listed = Entry file_entry | Broken string string




text \<open>
  The notions of the claim. A name is \<open>statable\<close> when it has a modification time; an
  entry is \<open>expired\<close> for a cutoff when its modification time is before the cutoff and its
  removal succeeds. The loop visits the names up to the first that is not statable.
\<close>

definition statable :: "listed \<Rightarrow> bool" where
  "statable l = (case l of Entry f \<Rightarrow> True | Broken n m \<Rightarrow> False)"

definition expired :: "real \<Rightarrow> listed \<Rightarrow> bool" where
  "expired cutoff_time l =
     (case l of Entry f \<Rightarrow> fmtime f < cutoff_time \<and> removable f | Broken n m \<Rightarrow> False)"


definition stat_error :: "listed list \<Rightarrow> exn + nat \<Rightarrow> exn + nat" where
  "stat_error names r =
     (case dropWhile statable names of [] \<Rightarrow> r | Entry f # rest \<Rightarrow> r | Broken n m # rest \<Rightarrow> Inl (Exc m))"




section \<open>Presenter: \<open>ChartDisplayManager.create_ascii_chart\<close>\<close>


































section \<open>Engine: \<open>VisualizationEngine.generate_chart\<close>\<close>

text \<open>A value that \<open>json.load\<close> returns; an object is the list of its items, with
  distinct keys. A float is given by the real number that it denotes; \<open>JNonFinite\<close> is
  one of the floats \<open>nan\<close>, \<open>inf\<close> and \<open>-inf\<close>, with the literal that was read.\<close>

datatype json =
    JNull
  | JBool bool
  | JInt int
  | JFloat real
  | JNonFinite string
  | JStr string
  | JArr "json list"
  | JObj "(string \<times> json) list"

text \<open>
  The figure, as far as the source reads it. \<open>fig.layout.title\<close> is read as a mapping
  that may hold the key \<open>text\<close>; a trace has a \<open>type\<close> and a \<open>mode\<close> (\<open>None\<close> stands for
  Python's \<open>None\<close>), an attribute \<open>x\<close> that is missing, \<open>None\<close>, or a sequence, and
  the values of \<open>y\<close> when they are set.
\<close>

datatype xattr = NoAttr | XNone | XSeq "json list"

record trace =
  trace_type :: "string option"
  trace_mode :: "string option"
  trace_x :: xattr
  trace_y :: "json list option"

record figure =
  fig_title :: "string option"
  fig_data :: "trace list"

text \<open>What the script may bind to the name \<open>fig\<close>: \<open>None\<close>, a figure, or another
  object, which has none of the attributes of a figure, so that reading one raises
  \<open>AttributeError\<close>. An object of a class of the script's own whose attributes raise
  other exceptions is not modelled.\<close>

datatype pyobj = PyNone | Figure figure | OtherObject

text \<open>
  The outcome of \<open>exec(code, exec_globals, exec_locals)\<close>: the code runs to its end and
  leaves the bindings of \<open>fig\<close> in the local and in the global scope, or it raises, or
  it never ends.
\<close>

datatype exec_result =
    Completed "pyobj option" "pyobj option"
  | Raised exn
  | Diverges

text \<open>
  The world around one call: the clock, the interpreter that runs the assembled code,
  and the library calls of the exporters. A library call that fails raises an
  \<open>Exception\<close>, given by its message. The text that \<open>pio.to_json\<close> returns is given by
  the value that it denotes.
\<close>

record world =
  now_stamp :: string
  run_code :: "string \<Rightarrow> exec_result"
  to_json :: "pyobj \<Rightarrow> string + json"
  write_text :: "string \<Rightarrow> string option"
  write_html :: "pyobj \<Rightarrow> string \<Rightarrow> string option"
  kaleido_installed :: bool
  write_image :: "pyobj \<Rightarrow> string \<Rightarrow> string option"
  open_browser :: "string \<Rightarrow> string option"

text \<open>A file of the file system: a JSON document, a text that \<open>json.load\<close> rejects with
  the given message, or a file that cannot be opened.\<close>

datatype file_content = Document json | Malformed string | Unreadable string

type_synonym filesystem = "string \<Rightarrow> file_content option"

text \<open>\<open>c.isalnum()\<close> on ASCII.\<close>

definition is_alnum :: "char \<Rightarrow> bool" where
  "is_alnum c = (c \<in> set (ascii_uppercase @ ascii_lowercase @ ''0123456789''))"

text \<open>\<open>_generate_filename\<close>\<close>

definition generate_filename :: "world \<Rightarrow> string \<Rightarrow> string" where
  "generate_filename w name =
     (let clean_name = strip (filter (\<lambda>c. is_alnum c \<or> c \<in> set ''_-'') name);
          timestamp = now_stamp w
      in clean_name @ ''_'' @ timestamp)"

text \<open>The code that \<open>_execute_visualization_code\<close> assembles.\<close>

definition pre_code :: "string \<Rightarrow> string" where
  "pre_code sql_query =
     [CHR 0x0A] @ ''import pandas as pd'' @ [CHR 0x0A]
     @ ''import plotly.express as px'' @ [CHR 0x0A]
     @ ''import plotly.graph_objects as go'' @ [CHR 0x0A]
     @ ''import plotly.io as pio'' @ [CHR 0x0A]
     @ ''from sqlalchemy import text'' @ [CHR 0x0A, CHR 0x0A]
     @ ''# Execute SQL query'' @ [CHR 0x0A]
     @ ''df = pd.read_sql(text('' @ replicate 3 (CHR 0x22) @ sql_query
     @ replicate 3 (CHR 0x22) @ ''), engine)'' @ [CHR 0x0A, CHR 0x0A]
     @ ''# Generated plotly code'' @ [CHR 0x0A]"

text \<open>
  \<open>_execute_visualization_code\<close>. The handler \<open>except Exception as e\<close> prints
  \<open>f"Error executing visualization code: {e}"\<close> and returns \<open>None\<close>; printing is taken to
  succeed.
\<close>

definition execute_visualization_code :: "world \<Rightarrow> string \<Rightarrow> string \<Rightarrow> pyobj outcome" where
  "execute_visualization_code w sql_query plotly_code =
     (let code = pre_code sql_query @ plotly_code in
      case run_code w code of
        Completed exec_locals exec_globals \<Rightarrow>
          (case exec_locals of
             Some fig \<Rightarrow> Returns fig
           | None \<Rightarrow> (case exec_globals of Some fig \<Rightarrow> Returns fig | None \<Rightarrow> Returns PyNone))
      | Raised e \<Rightarrow> except_Exception e (\<lambda>m. Returns PyNone)
      | Diverges \<Rightarrow> NeverReturns)"

text \<open>\<open>_export_json\<close> and \<open>_export_html\<close>: the path, or the message of the \<open>Exception\<close>
  that the library raises; the file system after the call comes with it.\<close>

definition export_json ::
  "world \<Rightarrow> string \<Rightarrow> filesystem \<Rightarrow> pyobj \<Rightarrow> string \<Rightarrow> (string + string) \<times> filesystem" where
  "export_json w output_dir fs fig base_filename =
     (let json_file = path_join output_dir (base_filename @ ''.json'') in
      case to_json w fig of
        Inl m \<Rightarrow> (Inl m, fs)
      | Inr fig_json \<Rightarrow>
          (case write_text w json_file of
             Some m \<Rightarrow> (Inl m, fs)
           | None \<Rightarrow> (Inr json_file, fs(json_file \<mapsto> Document fig_json))))"

definition export_html ::
  "world \<Rightarrow> string \<Rightarrow> filesystem \<Rightarrow> pyobj \<Rightarrow> string \<Rightarrow> (string + string) \<times> filesystem" where
  "export_html w output_dir fs fig base_filename =
     (let html_file = path_join output_dir (base_filename @ ''.html'') in
      case write_html w fig html_file of
        Some m \<Rightarrow> (Inl m, fs)
      | None \<Rightarrow> (Inr html_file, fs(html_file \<mapsto> Malformed ''Expecting value'')))"

text \<open>\<open>_export_png\<close> and \<open>_export_svg\<close>: both handlers return \<open>None\<close>.\<close>

definition export_image ::
  "string \<Rightarrow> world \<Rightarrow> string \<Rightarrow> filesystem \<Rightarrow> pyobj \<Rightarrow> string \<Rightarrow> string option \<times> filesystem" where
  "export_image ext w output_dir fs fig base_filename =
     (if \<not> kaleido_installed w then (None, fs)
      else
        (let image_file = path_join output_dir (base_filename @ ext) in
         case write_image w fig image_file of
           Some m \<Rightarrow> (None, fs)
         | None \<Rightarrow> (Some image_file, fs(image_file \<mapsto> Malformed ''Expecting value''))))"

definition export_png ::
  "world \<Rightarrow> string \<Rightarrow> filesystem \<Rightarrow> pyobj \<Rightarrow> string \<Rightarrow> string option \<times> filesystem" where
  "export_png = export_image ''.png''"

definition export_svg ::
  "world \<Rightarrow> string \<Rightarrow> filesystem \<Rightarrow> pyobj \<Rightarrow> string \<Rightarrow> string option \<times> filesystem" where
  "export_svg = export_image ''.svg''"

text \<open>\<open>_detect_chart_type\<close>\<close>

definition detect_chart_type :: "figure \<Rightarrow> string" where
  "detect_chart_type fig =
     (case fig_data fig of
        [] \<Rightarrow> ''unknown''
      | t # _ \<Rightarrow>
          (let ty = trace_type t in
           if ty = Some ''bar'' then ''bar_chart''
           else if ty = Some ''scatter''
           then (if trace_mode t = Some ''lines'' then ''line_chart'' else ''scatter_plot'')
           else if ty = Some ''pie'' then ''pie_chart''
           else if ty = Some ''histogram'' then ''histogram''
           else (case ty of Some s \<Rightarrow> (if s = [] then ''unknown'' else s) | None \<Rightarrow> ''unknown'')))"

text \<open>The dictionary \<open>chart_data\<close> of the result.\<close>

record chart_data =
  cd_title :: string
  cd_chart_type :: string
  cd_data_points :: nat

text \<open>The summary that \<open>generate_chart\<close> stores under \<open>chart_data\<close>. \<open>len(None)\<close> raises
  \<open>TypeError\<close>, and so does the attribute \<open>layout\<close> of an object that is no figure
  (\<open>AttributeError\<close>); \<open>Inl\<close> carries the message.\<close>

definition summarize_figure :: "pyobj \<Rightarrow> string \<Rightarrow> string + chart_data" where
  "summarize_figure obj name =
     (case obj of
        Figure fig \<Rightarrow>
          (let title = (case fig_title fig of Some t \<Rightarrow> t | None \<Rightarrow> name);
               chart_type = detect_chart_type fig
           in case fig_data fig of
                [] \<Rightarrow> Inr \<lparr>cd_title = title, cd_chart_type = chart_type, cd_data_points = 0\<rparr>
              | t # _ \<Rightarrow>
                  (case trace_x t of
                     NoAttr \<Rightarrow>
                       Inr \<lparr>cd_title = title, cd_chart_type = chart_type, cd_data_points = 0\<rparr>
                   | XNone \<Rightarrow> Inl ''object of type 'NoneType' has no len()''
                   | XSeq xs \<Rightarrow>
                       Inr \<lparr>cd_title = title, cd_chart_type = chart_type,
                            cd_data_points = length xs\<rparr>))
      | _ \<Rightarrow> Inl (''object has no attribute 'layout'' @ [CHR 0x27]))"

text \<open>The dictionary \<open>result\<close>; \<open>files\<close> lists the items in the order of insertion.\<close>

record chart_result =
  success :: bool
  files :: "(string \<times> string) list"
  errors :: "string list"
  chart_data :: "chart_data option"

text \<open>
  The body of the \<open>try\<close> block after the figure is there, as a chain of steps on the
  result and the file system. A step fails when a call of the library raises; the world
  gives such an \<open>Exception\<close> by the text \<open>m\<close> that \<open>str\<close> returns for it. The failure
  ends the chain: the handler of \<open>generate_chart\<close> appends \<open>m\<close> to \<open>errors\<close>, which is
  what \<open>failed\<close> does, and the result is returned as it stands, with the files and the
  \<open>success\<close> flag set so far.
\<close>

definition failed :: "chart_result \<Rightarrow> string \<Rightarrow> chart_result" where
  "failed result m = result\<lparr>errors := errors result @ [''Chart generation failed: '' @ m]\<rparr>"

definition finish_chart :: "world \<Rightarrow> pyobj \<Rightarrow> string \<Rightarrow> bool \<Rightarrow> chart_result \<Rightarrow> chart_result" where
  "finish_chart w fig name auto_open result =
     (let opened = (if auto_open
                    then (case map_of (files result) ''html'' of
                            Some p \<Rightarrow> open_browser w p | None \<Rightarrow> None)
                    else None);
          result = result\<lparr>success := True\<rparr>
      in case summarize_figure fig name of
           Inl m \<Rightarrow> failed result m
         | Inr cd \<Rightarrow> result\<lparr>chart_data := Some cd\<rparr>)"

definition export_images ::
  "world \<Rightarrow> string \<Rightarrow> pyobj \<Rightarrow> string \<Rightarrow> string list \<Rightarrow> chart_result \<times> filesystem
     \<Rightarrow> chart_result \<times> filesystem" where
  "export_images w output_dir fig base_filename export_formats state =
     (let (result, fs) = state;
          (result, fs) =
            (if ''png'' \<in> set export_formats
             then (case export_png w output_dir fs fig base_filename of
                     (Some png_file, fs') \<Rightarrow>
                       (result\<lparr>files := files result @ [(''png'', png_file)]\<rparr>, fs')
                   | (None, fs') \<Rightarrow> (result, fs'))
             else (result, fs))
      in if ''svg'' \<in> set export_formats
         then (case export_svg w output_dir fs fig base_filename of
                 (Some svg_file, fs') \<Rightarrow>
                   (result\<lparr>files := files result @ [(''svg'', svg_file)]\<rparr>, fs')
               | (None, fs') \<Rightarrow> (result, fs'))
         else (result, fs))"

definition export_all ::
  "world \<Rightarrow> string \<Rightarrow> pyobj \<Rightarrow> string \<Rightarrow> string \<Rightarrow> bool \<Rightarrow> string list
     \<Rightarrow> chart_result \<Rightarrow> filesystem \<Rightarrow> chart_result \<times> filesystem" where
  "export_all w output_dir fig name base_filename auto_open export_formats result fs =
     (let step_json =
            (if ''json'' \<in> set export_formats
             then (case export_json w output_dir fs fig base_filename of
                     (Inl m, fs') \<Rightarrow> (Inl m, fs')
                   | (Inr json_file, fs') \<Rightarrow>
                       (Inr (result\<lparr>files := files result @ [(''json'', json_file)]\<rparr>), fs'))
             else (Inr result, fs))
      in case step_json of
           (Inl m, fs) \<Rightarrow> (failed result m, fs)
         | (Inr result, fs) \<Rightarrow>
             (let step_html =
                    (if ''html'' \<in> set export_formats
                     then (case export_html w output_dir fs fig base_filename of
                             (Inl m, fs') \<Rightarrow> (Inl m, fs')
                           | (Inr html_file, fs') \<Rightarrow>
                               (Inr (result\<lparr>files := files result @ [(''html'', html_file)]\<rparr>), fs'))
                     else (Inr result, fs))
              in case step_html of
                   (Inl m, fs) \<Rightarrow> (failed result m, fs)
                 | (Inr result, fs) \<Rightarrow>
                     (let (result, fs) =
                            export_images w output_dir fig base_filename export_formats (result, fs)
                      in (finish_chart w fig name auto_open result, fs))))"

text \<open>
  \<open>generate_chart\<close>. \<open>export_formats\<close> is \<open>None\<close> or a list of format names; the call
  returns the result and the file system that it leaves. An exception that leaves
  \<open>_execute_visualization_code\<close> meets the handler \<open>except Exception as e\<close> of
  \<open>generate_chart\<close>, which formats it with \<open>str(e)\<close>.
\<close>

definition requested_formats :: "string list option \<Rightarrow> string list" where
  "requested_formats export_formats =
     (case export_formats of None \<Rightarrow> [''html'', ''json''] | Some fmts \<Rightarrow> fmts)"

definition generate_chart ::
  "world \<Rightarrow> string \<Rightarrow> filesystem \<Rightarrow> string \<Rightarrow> string \<Rightarrow> string \<Rightarrow> bool \<Rightarrow> string list option
     \<Rightarrow> (chart_result \<times> filesystem) outcome" where
  "generate_chart w output_dir fs name sql_query plotly_code auto_open export_formats =
     (let export_formats = requested_formats export_formats;
          result = \<lparr>success = False, files = [], errors = [], chart_data = None\<rparr>;
          base_filename = generate_filename w name
      in case execute_visualization_code w sql_query plotly_code of
           Propagates e \<Rightarrow> except_Exception e (\<lambda>m. Returns (failed result m, fs))
         | NeverReturns \<Rightarrow> NeverReturns
         | Returns PyNone \<Rightarrow>
             Returns (result\<lparr>errors := errors result @ [''Failed to generate figure'']\<rparr>, fs)
         | Returns fig \<Rightarrow>
             Returns (export_all w output_dir fig name base_filename auto_open export_formats
                        result fs))"

text \<open>
  The conditions under which the claims about \<open>generate_chart\<close> are stated. An exception
  of the run is \<open>reportable\<close> when it is an \<open>Exception\<close> that the two handlers can turn
  into text: \<open>str\<close> of it returns, or raises an \<open>Exception\<close> of which \<open>str\<close> returns. The
  run of the assembled code is \<open>catchable\<close> when it ends and raises nothing but a
  reportable exception; it gives \<open>no_figure\<close> when it raises a reportable exception or
  leaves \<open>fig\<close> unbound or bound to \<open>None\<close>. An export succeeds when none of its library
  calls raises.
\<close>

definition reportable :: "exn \<Rightarrow> bool" where
  "reportable e =
     (case e of
        Exc m \<Rightarrow> True
      | Unprintable e' \<Rightarrow> (case e' of Exc m \<Rightarrow> True | _ \<Rightarrow> False)
      | BaseExc m \<Rightarrow> False)"

definition catchable :: "exec_result \<Rightarrow> bool" where
  "catchable r = (case r of Completed l g \<Rightarrow> True | Raised e \<Rightarrow> reportable e | Diverges \<Rightarrow> False)"





text \<open>The result of a call that returns.\<close>

definition returned :: "(chart_result \<times> filesystem) outcome \<Rightarrow> chart_result option" where
  "returned out = (case out of Returns (r, fs) \<Rightarrow> Some r | _ \<Rightarrow> None)"



definition empty_fs :: filesystem where
  "empty_fs = (\<lambda>p. None)"


text \<open>A world in which the interpreter does what Python does with a script that ends in
  \<open>raise SystemExit\<close>, with a script that raises \<open>ValueError\<close>, and with a script that
  raises an instance of its own class \<open>Mute\<close>, an \<open>Exception\<close> whose \<open>__str__\<close> raises
  \<open>RuntimeError("mute")\<close>.\<close>

definition exit_world :: world where
  "exit_world =
     \<lparr>now_stamp = ''20240101_120000'',
      run_code = (\<lambda>code. if endswith code ''raise SystemExit'' then Raised (BaseExc [])
                         else if endswith code ''raise ValueError'' then Raised (Exc [])
                         else if endswith code ''raise Mute()'' then Raised (Unprintable (Exc ''mute''))
                         else Completed None None),
      to_json = (\<lambda>obj. Inr JNull),
      write_text = (\<lambda>p. None),
      write_html = (\<lambda>obj p. None),
      kaleido_installed = False,
      write_image = (\<lambda>obj p. None),
      open_browser = (\<lambda>p. None)\<rparr>"

section \<open>Presenter: \<open>ChartDisplayManager.display_chart_quick_preview\<close>\<close>
































section \<open>The structured file of a figure\<close>








section \<open>Properties of the validator\<close>

lemma startswith_iff: "startswith s p \<longleftrightarrow> (\<exists>suf. s = p @ suf)"
  by (induction s p rule: startswith.induct) auto

lemma contains_iff: "contains s p \<longleftrightarrow> (\<exists>pre suf. s = pre @ p @ suf)"
proof (induction s)
  case Nil
  then show ?case by simp
next
  case (Cons c cs)
  show ?case
  proof
    assume "contains (c # cs) p"
    then consider "startswith (c # cs) p" | "contains cs p" by auto
    then show "\<exists>pre suf. c # cs = pre @ p @ suf"
    proof cases
      case 1
      then obtain suf where "c # cs = p @ suf" by (auto simp: startswith_iff)
      then have "c # cs = [] @ p @ suf" by simp
      then show ?thesis by blast
    next
      case 2
      with Cons obtain pre suf where "cs = pre @ p @ suf" by blast
      then have "c # cs = (c # pre) @ p @ suf" by simp
      then show ?thesis by blast
    qed
  next
    assume "\<exists>pre suf. c # cs = pre @ p @ suf"
    then obtain pre suf where eq: "c # cs = pre @ p @ suf" by blast
    show "contains (c # cs) p"
    proof (cases pre)
      case Nil
      with eq have "startswith (c # cs) p" by (auto simp: startswith_iff)
      then show ?thesis by simp
    next
      case (Cons a pre')
      with eq have "cs = pre' @ p @ suf" by simp
      with Cons.IH have "contains cs p" by blast
      then show ?thesis by simp
    qed
  qed
qed

lemma validate_sql_query_ok_iff:
  "fst (validate_sql_query query) \<longleftrightarrow>
     (\<forall>keyword \<in> set dangerous_keywords. \<not> keyword_hit (strip (lower query)) keyword)
     \<and> startswith (strip (lower query)) ''select''
     \<and> count_list query (CHR ''('') = count_list query (CHR '')'')"
proof (cases "find (keyword_hit (strip (lower query))) dangerous_keywords")
  case None
  then have "\<forall>keyword \<in> set dangerous_keywords. \<not> keyword_hit (strip (lower query)) keyword"
    by (simp add: find_None_iff)
  with None show ?thesis
    by (simp add: validate_sql_query_def)
next
  case (Some keyword)
  then have "keyword \<in> set dangerous_keywords \<and> keyword_hit (strip (lower query)) keyword"
    by (auto simp: find_Some_iff)
  with Some show ?thesis
    by (auto simp: validate_sql_query_def)
qed

lemma validate_sql_query_reason:
  "\<not> fst (validate_sql_query query) \<Longrightarrow> snd (validate_sql_query query) \<noteq> []"
  by (auto simp: validate_sql_query_def Let_def split: option.splits if_splits)

text \<open>
  C2. For every script, \<open>validate_plotly_code\<close> answers \<open>False\<close> with a non-empty reason
  when one of the dangerous substrings occurs in the lower-cased text, or when the marker
  \<open>fig\<close> does not occur in the script, or when none of the markers \<open>px.\<close>, \<open>go.\<close>,
  \<open>plotly\<close> occurs in it. In particular a script without \<open>fig\<close> is always rejected.
\<close>

theorem validate_plotly_code_rejects:
  assumes "(\<exists>pattern \<in> set dangerous_patterns. contains (lower plotly_code) pattern)
           \<or> \<not> contains plotly_code ''fig''
           \<or> \<not> (\<exists>lib \<in> set plotly_markers. contains plotly_code lib)"
  shows "fst (validate_plotly_code plotly_code) = False
         \<and> snd (validate_plotly_code plotly_code) \<noteq> []"
proof (cases "find (contains (lower plotly_code)) dangerous_patterns")
  case (Some pattern)
  then show ?thesis by (simp add: validate_plotly_code_def)
next
  case None
  then have "\<not> (\<exists>pattern \<in> set dangerous_patterns. contains (lower plotly_code) pattern)"
    by (simp add: find_None_iff)
  with assms have "\<not> contains plotly_code ''fig''
                   \<or> \<not> list_ex (contains plotly_code) plotly_markers"
    by (auto simp: list_ex_iff)
  with None show ?thesis by (auto simp: validate_plotly_code_def)
qed

theorem validate_plotly_code_rejects_witness:
  "\<not> contains ''chart = px.bar(df)'' ''fig''
   \<and> fst (validate_plotly_code ''chart = px.bar(df)'') = False
   \<and> snd (validate_plotly_code ''chart = px.bar(df)'') \<noteq> []"
proof -
  have h: "\<not> contains ''chart = px.bar(df)'' ''fig''" by simp
  then show ?thesis
    using validate_plotly_code_rejects [of "''chart = px.bar(df)''"] by blast
qed


text \<open>
  C1. The claim is that a query is accepted exactly when it starts with \<open>select\<close>, has
  balanced parentheses and holds no denylisted keyword as a standalone token. The code
  looks for the keyword between two space characters only, so it misses a keyword that
  is delimited by a line break or a tab: the query below is accepted although \<open>drop\<close> is
  one of its tokens.
\<close>

theorem validate_sql_query_accepts_drop_after_newline:
  "validate_sql_query (''SELECT 1;'' @ [CHR 0x0A] @ ''DROP TABLE customers'') = (True, '''')
   \<and> standalone_token ''drop'' (lower (''SELECT 1;'' @ [CHR 0x0A] @ ''DROP TABLE customers''))
   \<and> ''drop'' \<in> set dangerous_keywords"
  by code_simp

section \<open>Properties of the repository\<close>

lemma endswith_iff: "endswith s p \<longleftrightarrow> (\<exists>pre. s = pre @ p)"
proof
  assume "endswith s p"
  then obtain suf where "rev s = rev p @ suf"
    by (auto simp: endswith_def startswith_iff)
  then have "s = rev suf @ p" by (metis rev_append rev_rev_ident)
  then show "\<exists>pre. s = pre @ p" by blast
next
  assume "\<exists>pre. s = pre @ p"
  then show "endswith s p" by (auto simp: endswith_def startswith_iff)
qed

lemma py_drop_last_suffix: "endswith s p \<Longrightarrow> py_drop_last (length p) s @ p = s"
  by (auto simp: endswith_iff py_drop_last_def)

lemma drop_html_suffix: "endswith s ''.html'' \<Longrightarrow> s = py_drop_last 5 s @ ''.html''"
  by (auto simp: endswith_iff py_drop_last_def)

lemma set_py_take: "set (py_take n xs) \<subseteq> set xs"
  by (auto simp: py_take_def dest: in_set_takeD)



lemma modified_chart_info_of [simp]: "modified (chart_info_of out es f) = fmtime f"
  by (simp add: chart_info_of_def Let_def)




text \<open>
  C7. Every record that \<open>list_recent_charts\<close> returns belongs to an entry of the directory
  whose name is the record's name followed by \<open>.html\<close>, so a chart without its primary
  file is never returned. The record's formats always contain \<open>html\<close>, contain \<open>json\<close>
  and \<open>png\<close> exactly when the sibling of that name exists, and contain nothing else.
\<close>

theorem list_recent_charts_primary_exists:
  assumes "r \<in> set (list_recent_charts output_dir dir limit)"
  shows "\<exists>entries f. dir = Some entries \<and> f \<in> set entries
           \<and> fname f = ci_name r @ ''.html''
           \<and> html_path r = path_join output_dir (fname f)
           \<and> ''html'' \<in> set (available_formats r)
           \<and> (''json'' \<in> set (available_formats r) \<longleftrightarrow> path_exists entries (ci_name r @ ''.json''))
           \<and> (''png'' \<in> set (available_formats r) \<longleftrightarrow> path_exists entries (ci_name r @ ''.png''))
           \<and> set (available_formats r) \<subseteq> {''html'', ''json'', ''png''}"
proof (cases dir)
  case None
  with assms show ?thesis by (simp add: list_recent_charts_def)
next
  case (Some entries)
  from assms Some obtain f where
    f: "f \<in> set (py_take limit (sort_key (\<lambda>f. - fmtime f)
                    (filter (\<lambda>f. endswith (fname f) ''.html'') entries)))"
    and r: "r = chart_info_of output_dir entries f"
    by (auto simp: list_recent_charts_def)
  from f have "f \<in> set (sort_key (\<lambda>f. - fmtime f)
                    (filter (\<lambda>f. endswith (fname f) ''.html'') entries))"
    by (rule subsetD [OF set_py_take])
  then have mem: "f \<in> set entries" and html: "endswith (fname f) ''.html''"
    by simp_all
  have "ci_name r = py_drop_last 5 (fname f)"
    by (simp add: r chart_info_of_def Let_def)
  with drop_html_suffix [OF html] have name: "fname f = ci_name r @ ''.html''"
    by simp
  have p: "html_path r = path_join output_dir (fname f)"
    by (simp add: r chart_info_of_def Let_def)
  have h: "''html'' \<in> set (available_formats r)"
    by (simp add: r chart_info_of_def Let_def)
  have j: "''json'' \<in> set (available_formats r) \<longleftrightarrow> path_exists entries (ci_name r @ ''.json'')"
    by (simp add: r chart_info_of_def Let_def)
  have g: "''png'' \<in> set (available_formats r) \<longleftrightarrow> path_exists entries (ci_name r @ ''.png'')"
    by (simp add: r chart_info_of_def Let_def)
  have s: "set (available_formats r) \<subseteq> {''html'', ''json'', ''png''}"
    by (auto simp: r chart_info_of_def Let_def split: if_splits)
  show ?thesis
    by (rule exI [of _ entries], rule exI [of _ f]) (intro conjI; fact)
qed

theorem list_recent_charts_primary_exists_witness:
  "costs_record \<in> set (list_recent_charts ''output/charts'' (Some gallery_dir) 10)
   \<and> (\<exists>entries f. Some gallery_dir = Some entries \<and> f \<in> set entries
           \<and> fname f = ci_name costs_record @ ''.html''
           \<and> html_path costs_record = path_join ''output/charts'' (fname f)
           \<and> ''html'' \<in> set (available_formats costs_record)
           \<and> (''json'' \<in> set (available_formats costs_record)
                \<longleftrightarrow> path_exists entries (ci_name costs_record @ ''.json''))
           \<and> (''png'' \<in> set (available_formats costs_record)
                \<longleftrightarrow> path_exists entries (ci_name costs_record @ ''.png''))
           \<and> set (available_formats costs_record) \<subseteq> {''html'', ''json'', ''png''})"
proof -
  have m: "costs_record \<in> set (list_recent_charts ''output/charts'' (Some gallery_dir) 10)"
    by code_simp
  from m list_recent_charts_primary_exists [OF m] show ?thesis by (rule conjI)
qed

section \<open>Properties of the clean-up\<close>

lemma statable_simps [simp]:
  "statable (Entry f) = True" "statable (Broken n m) = False"
  by (simp_all add: statable_def)

lemma expired_simps [simp]:
  "expired c (Entry f) = (fmtime f < c \<and> removable f)" "expired c (Broken n m) = False"
  by (simp_all add: expired_def)

lemma stat_error_simps [simp]:
  "stat_error [] r = r"
  "stat_error (Entry f # rest) r = stat_error rest r"
  "stat_error (Broken n m # rest) r = Inl (Exc m)"
  by (simp_all add: stat_error_def)








section \<open>Properties of the textual bar chart\<close>

















section \<open>Properties of chart generation\<close>











text \<open>The condition of C3 is the exact one: when the run is not catchable, the call does
  not return.\<close>

lemma generate_chart_not_catchable:
  assumes "\<not> catchable (run_code w (pre_code sql_query @ plotly_code))"
  shows "generate_chart w output_dir fs name sql_query plotly_code auto_open export_formats
           = NeverReturns
         \<or> (\<exists>e. generate_chart w output_dir fs name sql_query plotly_code auto_open
                    export_formats = Propagates e)"
  using assms
  by (auto simp: generate_chart_def execute_visualization_code_def except_Exception_def
        is_exception_def str_exn_def catchable_def reportable_def Let_def
      split: exec_result.splits exn.splits)



text \<open>An \<open>Exception\<close> of the script whose \<open>__str__\<close> raises is reported when the exception
  of \<open>__str__\<close> can be formatted: the handler of \<open>generate_chart\<close> catches the second
  exception.\<close>

lemma generate_chart_mute_exception:
  "returned (generate_chart exit_world ''output/charts'' empty_fs ''sales'' ''SELECT 1''
       ''fig = px.bar(df); raise Mute()'' True None)
     = Some \<lparr>success = False, files = [], errors = [''Chart generation failed: mute''],
             chart_data = None\<rparr>"
proof -
  have e: "run_code exit_world (pre_code ''SELECT 1'' @ ''fig = px.bar(df); raise Mute()'')
             = Raised (Unprintable (Exc ''mute''))"
    by code_simp
  show ?thesis
    by (simp add: returned_def generate_chart_def execute_visualization_code_def
          except_Exception_def is_exception_def str_exn_def failed_def e)
qed




section \<open>The quick preview\<close>









section \<open>The round trip from the summary of the engine to the preview\<close>



















end
